theory Spec2Isabelle
  imports Main
begin

section \<open>Values and the JavaScript primitives the template engine relies on\<close>

text \<open>
  The template engine (\<^verbatim>\<open>TemplateEngine\<close>, \<^verbatim>\<open>FilterProcessor\<close>,
  \<^verbatim>\<open>VariableProcessor\<close>) works on \<^verbatim>\<open>unknown\<close> values that come from a
  JSON-like context. They are modelled by the closed sum \<open>val\<close>. Conventions:
  \<^item> a string is a \<open>string\<close>, the UTF-8 encoding of the JavaScript string: an ASCII
    character is one \<open>char\<close> and one code unit, other characters are several \<open>char\<close>s
    from 128 on. Scanning for ASCII delimiters, comparing and concatenating are the same on
    both forms. What depends on code units or on the Unicode tables (case mapping,
    \<^verbatim>\<open>trim\<close>, \<^verbatim>\<open>length\<close>, indexing, splitting into characters) is computed by the
    model for ASCII text and taken from the runtime otherwise;
  \<^item> a number is an \<open>int\<close>: an integer-valued number below \<open>2 ^ 53\<close> in magnitude,
    which \<^verbatim>\<open>String\<close> prints in plain decimal;
  \<^item> an object is the association list of its own enumerable properties, in enumeration
    order, with distinct keys; a key it lacks is looked up in \<^verbatim>\<open>Object.prototype\<close>;
  \<^item> a built-in function or object of the runtime (what a prototype provides, such as
    \<^verbatim>\<open>constructor\<close> or \<^verbatim>\<open>toString\<close>) is a \<open>VNative\<close> value: its kind and the text
    \<^verbatim>\<open>String\<close> gives for it;
  \<^item> a thrown exception is \<open>Inl\<close> of an \<open>error\<close>;
  \<^item> \<^verbatim>\<open>console.warn\<close> appends a line to an explicit \<open>console\<close>.
\<close>

datatype native_kind = NativeFunction | NativeObject | NativeArray

datatype val =
    VUndefined
  | VNull
  | VBool bool
  | VNum int
  | VStr string
  | VArr "val list"
  | VObj "(string \<times> val) list"
  | VNative native_kind string

datatype error = TypeError | SyntaxError

type_synonym console = "string list"

type_synonym 'a outcome = "(error + 'a) \<times> console"

text \<open>
  The JavaScript runtime is no code of this program. What the model takes from it is a
  parameter \<open>rt\<close>, and every theorem holds for every runtime:
  \<^item> \<open>regexp_replace\<close>: \<^verbatim>\<open>s.replace(new RegExp(search, 'g'), replace)\<close> for a pattern
    with operators (or a replacement with \<^verbatim>\<open>$\<close>); it throws for a malformed pattern;
  \<^item> \<open>json_stringify\<close>: \<^verbatim>\<open>JSON.stringify(value)\<close> of an object;
  \<^item> \<open>runtime_filter\<close>: the built-in filters written with \<^verbatim>\<open>Date\<close>, \<^verbatim>\<open>JSON\<close>,
    \<^verbatim>\<open>Number\<close>, \<^verbatim>\<open>Set\<close> or a regular expression with operators, and the other
    built-in filters on text beyond ASCII;
  \<^item> \<open>member\<close>: \<^verbatim>\<open>value[key]\<close> where the value has no such property of its own: the
    members it inherits from its prototype, the members of a built-in value, and
    \<^verbatim>\<open>length\<close> and the characters of a string beyond ASCII;
  \<^item> \<open>to_upper_case\<close>, \<open>to_lower_case\<close>, \<open>trim_text\<close>: \<^verbatim>\<open>toUpperCase\<close>,
    \<^verbatim>\<open>toLowerCase\<close> and \<^verbatim>\<open>trim\<close> on text beyond ASCII.
\<close>

record js_runtime =
  regexp_replace :: "string \<Rightarrow> string \<Rightarrow> string \<Rightarrow> error + string"
  json_stringify :: "val \<Rightarrow> string"
  runtime_filter :: "string \<Rightarrow> val \<Rightarrow> string list \<Rightarrow> error + val"
  member :: "val \<Rightarrow> string \<Rightarrow> val"
  to_upper_case :: "string \<Rightarrow> string"
  to_lower_case :: "string \<Rightarrow> string"
  trim_text :: "string \<Rightarrow> string"

subsection \<open>Characters and strings\<close>

definition dquote :: char where
  "dquote = CHR 0x22"

definition squote :: char where
  "squote = CHR 0x27"

definition backslash :: char where
  "backslash = CHR 0x5C"

definition is_ascii :: "char \<Rightarrow> bool" where
  "is_ascii c = (of_char c < (128 :: nat))"

definition ascii :: "string \<Rightarrow> bool" where
  "ascii s = list_all is_ascii s"

text \<open>White space removed by \<^verbatim>\<open>String.prototype.trim\<close>, within ASCII: tab, line feed,
  vertical tab, form feed, carriage return, space.\<close>

definition is_space :: "char \<Rightarrow> bool" where
  "is_space c = (c = CHR 0x09 \<or> c = CHR 0x0A \<or> c = CHR 0x0B \<or> c = CHR 0x0C
      \<or> c = CHR 0x0D \<or> c = CHR 0x20)"

text \<open>\<^verbatim>\<open>s.trim()\<close>. Beyond ASCII there is more white space (U+00A0, U+2028, U+FEFF and
  others), which the runtime knows.\<close>

definition trim :: "js_runtime \<Rightarrow> string \<Rightarrow> string" where
  "trim rt s =
     (if ascii s then rev (dropWhile is_space (rev (dropWhile is_space s))) else trim_text rt s)"

definition startsWith :: "string \<Rightarrow> string \<Rightarrow> bool" where
  "startsWith s p = (take (length p) s = p)"

definition endsWith :: "string \<Rightarrow> string \<Rightarrow> bool" where
  "endsWith s p = (length p \<le> length s \<and> drop (length s - length p) s = p)"

text \<open>\<^verbatim>\<open>str.slice(1, -1)\<close> of a string whose first and last characters are ASCII: the
  string without them.\<close>

definition slice_1_m1 :: "string \<Rightarrow> string" where
  "slice_1_m1 s = butlast (tl s)"

definition lower_letters :: string where
  "lower_letters = ''abcdefghijklmnopqrstuvwxyz''"

definition upper_letters :: string where
  "upper_letters = ''ABCDEFGHIJKLMNOPQRSTUVWXYZ''"

text \<open>The case mapping of one ASCII character.\<close>

definition upper_char :: "char \<Rightarrow> char" where
  "upper_char c = (case map_of (zip lower_letters upper_letters) c of Some d \<Rightarrow> d | None \<Rightarrow> c)"

definition lower_char :: "char \<Rightarrow> char" where
  "lower_char c = (case map_of (zip upper_letters lower_letters) c of Some d \<Rightarrow> d | None \<Rightarrow> c)"

text \<open>\<^verbatim>\<open>s.toUpperCase()\<close> and \<^verbatim>\<open>s.toLowerCase()\<close>: character by character on ASCII
  text; beyond ASCII the Unicode mapping of the runtime, which may change the length.\<close>

definition toUpperCase :: "js_runtime \<Rightarrow> string \<Rightarrow> string" where
  "toUpperCase rt s = (if ascii s then map upper_char s else to_upper_case rt s)"

definition toLowerCase :: "js_runtime \<Rightarrow> string \<Rightarrow> string" where
  "toLowerCase rt s = (if ascii s then map lower_char s else to_lower_case rt s)"

definition is_digit :: "char \<Rightarrow> bool" where
  "is_digit c = (c \<in> set ''0123456789'')"

text \<open>The class \<^verbatim>\<open>\w\<close> of a regular expression.\<close>

definition is_word :: "char \<Rightarrow> bool" where
  "is_word c = (c \<in> set lower_letters \<or> c \<in> set upper_letters \<or> is_digit c \<or> c = CHR ''_'')"

text \<open>\<^verbatim>\<open>s.split(sep)\<close> for a separator of one ASCII character: the pieces between the
  occurrences of \<open>sep\<close>; never the empty list.\<close>

fun split_char :: "char \<Rightarrow> string \<Rightarrow> string list" where
  "split_char sep [] = [[]]"
| "split_char sep (c # cs) =
     (if c = sep then [] # split_char sep cs
      else (case split_char sep cs of
              [] \<Rightarrow> [[c]]
            | p # ps \<Rightarrow> (c # p) # ps))"

fun join_strings :: "string \<Rightarrow> string list \<Rightarrow> string" where
  "join_strings sep [] = []"
| "join_strings sep [x] = x"
| "join_strings sep (x # y # ys) = x @ sep @ join_strings sep (y # ys)"

subsection \<open>Numbers as text\<close>

definition digit_char :: "nat \<Rightarrow> char" where
  "digit_char d = ''0123456789'' ! (d mod 10)"

fun show_nat :: "nat \<Rightarrow> string" where
  "show_nat n = (if n < 10 then [digit_char n] else show_nat (n div 10) @ [digit_char (n mod 10)])"

declare show_nat.simps [simp del]

definition show_int :: "int \<Rightarrow> string" where
  "show_int i = (if i < 0 then CHR ''-'' # show_nat (nat (- i)) else show_nat (nat i))"

definition digit_val :: "char \<Rightarrow> nat" where
  "digit_val c = (case map_of (zip ''0123456789'' [0 ..< 10]) c of Some d \<Rightarrow> d | None \<Rightarrow> 0)"

text \<open>\<^verbatim>\<open>parseInt(index, 10)\<close> on a string of decimal digits.\<close>

definition parseInt10 :: "string \<Rightarrow> nat" where
  "parseInt10 s = foldl (\<lambda>acc c. 10 * acc + digit_val c) 0 s"

subsection \<open>Conversions and property access\<close>

text \<open>\<^verbatim>\<open>String(value)\<close>, also what a template literal and \<^verbatim>\<open>Array.prototype.join\<close>
  apply to an element (where \<^verbatim>\<open>null\<close> and \<^verbatim>\<open>undefined\<close> give the empty string).\<close>

fun toString :: "val \<Rightarrow> string" where
  "toString VUndefined = ''undefined''"
| "toString VNull = ''null''"
| "toString (VBool b) = (if b then ''true'' else ''false'')"
| "toString (VNum n) = show_int n"
| "toString (VStr s) = s"
| "toString (VArr xs) =
     join_strings '',''
       (map (\<lambda>x. if x = VUndefined \<or> x = VNull then [] else toString x) xs)"
| "toString (VObj kvs) = ''[object Object]''"
| "toString (VNative kind text) = text"

definition array_join :: "val list \<Rightarrow> string \<Rightarrow> string" where
  "array_join xs sep =
     join_strings sep (map (\<lambda>x. if x = VUndefined \<or> x = VNull then [] else toString x) xs)"

text \<open>Truthiness, as \<^verbatim>\<open>if (x)\<close> and \<^verbatim>\<open>!x\<close> test it.\<close>

fun truthy :: "val \<Rightarrow> bool" where
  "truthy VUndefined = False"
| "truthy VNull = False"
| "truthy (VBool b) = b"
| "truthy (VNum n) = (n \<noteq> 0)"
| "truthy (VStr s) = (s \<noteq> [])"
| "truthy (VArr xs) = True"
| "truthy (VObj kvs) = True"
| "truthy (VNative kind text) = True"

definition nullish :: "val \<Rightarrow> bool" where
  "nullish v = (v = VUndefined \<or> v = VNull)"

text \<open>\<^verbatim>\<open>value ?? ''\<close>.\<close>

definition or_empty :: "val \<Rightarrow> val" where
  "or_empty v = (if nullish v then VStr [] else v)"

text \<open>\<^verbatim>\<open>Array.isArray(value)\<close>, with the elements. The one built-in array is
  \<^verbatim>\<open>Array.prototype\<close>, which has no element.\<close>

fun as_array :: "val \<Rightarrow> val list option" where
  "as_array (VArr xs) = Some xs"
| "as_array (VNative NativeArray text) = Some []"
| "as_array v = None"

text \<open>A canonical array index: decimal digits with no leading zero.\<close>

definition array_index :: "string \<Rightarrow> nat option" where
  "array_index k =
     (if k \<noteq> [] \<and> list_all is_digit k \<and> (k = ''0'' \<or> hd k \<noteq> CHR ''0'')
      then Some (parseInt10 k) else None)"

definition nth_or_undefined :: "val list \<Rightarrow> nat \<Rightarrow> val" where
  "nth_or_undefined xs i = (if i < length xs then xs ! i else VUndefined)"

text \<open>The string keys of the members of \<^verbatim>\<open>Object.prototype\<close>, which every plain
  object inherits.\<close>

definition object_prototype_members :: "string list" where
  "object_prototype_members =
     [''constructor'', ''hasOwnProperty'', ''isPrototypeOf'', ''propertyIsEnumerable'',
      ''toLocaleString'', ''toString'', ''valueOf'', ''__proto__'',
      ''__defineGetter__'', ''__defineSetter__'', ''__lookupGetter__'', ''__lookupSetter__'']"

text \<open>\<^verbatim>\<open>(current as Record<string, unknown>)[key]\<close> on a value that is neither
  \<^verbatim>\<open>null\<close> nor \<^verbatim>\<open>undefined\<close> (every caller checks that first). An own property
  comes first: a property of an object, an element or the \<^verbatim>\<open>length\<close> of an array or
  of an ASCII string. Otherwise the prototype chain is searched: a plain object inherits
  the members of \<^verbatim>\<open>Object.prototype\<close> and nothing else; an element beyond the end of an
  array or a string is \<^verbatim>\<open>undefined\<close>; every other member is the runtime's.\<close>

fun get_prop :: "js_runtime \<Rightarrow> val \<Rightarrow> string \<Rightarrow> val" where
  "get_prop rt (VObj kvs) k =
     (case map_of kvs k of
        Some v \<Rightarrow> v
      | None \<Rightarrow> (if k \<in> set object_prototype_members then member rt (VObj kvs) k else VUndefined))"
| "get_prop rt (VArr xs) k =
     (if k = ''length'' then VNum (int (length xs))
      else (case array_index k of
              Some i \<Rightarrow> nth_or_undefined xs i
            | None \<Rightarrow> member rt (VArr xs) k))"
| "get_prop rt (VStr s) k =
     (if \<not> ascii s then member rt (VStr s) k
      else if k = ''length'' then VNum (int (length s))
      else (case array_index k of
              Some i \<Rightarrow> (if i < length s then VStr [s ! i] else VUndefined)
            | None \<Rightarrow> member rt (VStr s) k))"
| "get_prop rt VUndefined k = VUndefined"
| "get_prop rt VNull k = VUndefined"
| "get_prop rt v k = member rt v k"

text \<open>\<^verbatim>\<open>Object.values(x)\<close> of a value that is neither \<^verbatim>\<open>null\<close> nor
  \<^verbatim>\<open>undefined\<close>: the values of the own enumerable properties. A built-in value has
  none; those of a string are its characters, each a string (beyond ASCII the list has the
  units of the encoding instead: the one caller passes over every string).\<close>

fun object_values :: "val \<Rightarrow> val list" where
  "object_values (VObj kvs) = map snd kvs"
| "object_values (VArr xs) = xs"
| "object_values (VStr s) = map (\<lambda>c. VStr [c]) s"
| "object_values v = []"

section \<open>Variable resolution (\<^verbatim>\<open>VariableProcessor\<close>)\<close>

type_synonym variables = "(string \<times> val) list"

text \<open>\<^verbatim>\<open>part.match(/^(\w+)\[(\d+|\*)\]$/)\<close>: the key and the index of
  \<^verbatim>\<open>key[N]\<close> or \<^verbatim>\<open>key[*]\<close>.\<close>

definition match_index :: "string \<Rightarrow> (string \<times> string) option" where
  "match_index part =
     (let key = takeWhile is_word part; rest = dropWhile is_word part; index = butlast (tl rest)
      in if key \<noteq> [] \<and> rest \<noteq> [] \<and> hd rest = CHR ''['' \<and> last rest = CHR '']''
            \<and> (index = ''*'' \<or> (index \<noteq> [] \<and> list_all is_digit index))
         then Some (key, index) else None)"

text \<open>The loop of \<^verbatim>\<open>resolveProperty\<close> over the parts of the path.\<close>

fun resolveProperty_loop :: "js_runtime \<Rightarrow> string list \<Rightarrow> val \<Rightarrow> val" where
  "resolveProperty_loop rt [] current = or_empty current"
| "resolveProperty_loop rt (part # parts) current =
     (if nullish current then VStr []
      else (case match_index part of
              Some (key, index) \<Rightarrow>
                (case as_array (get_prop rt current key) of
                   Some xs \<Rightarrow>
                     (if index = ''*'' then get_prop rt current key
                      else resolveProperty_loop rt parts (nth_or_undefined xs (parseInt10 index)))
                 | None \<Rightarrow> resolveProperty_loop rt parts (get_prop rt current key))
            | None \<Rightarrow> resolveProperty_loop rt parts (get_prop rt current part)))"

definition resolveProperty :: "js_runtime \<Rightarrow> string \<Rightarrow> val \<Rightarrow> val" where
  "resolveProperty rt path obj = resolveProperty_loop rt (split_char (CHR ''.'') path) obj"

definition resolveMeta :: "js_runtime \<Rightarrow> string \<Rightarrow> variables \<Rightarrow> val" where
  "resolveMeta rt expression variables =
     (let metadata = get_prop rt (VObj variables) ''metadata'' in
      if \<not> truthy metadata then VStr []
      else (let parts = split_char (CHR '':'') expression in
            if 2 \<le> length parts \<and> (parts ! 0 = ''name'' \<or> parts ! 0 = ''property'')
            then or_empty (get_prop rt metadata (''meta_'' @ parts ! 0 @ ''_'' @ parts ! 1))
            else or_empty (get_prop rt metadata expression)))"

definition resolveSelector :: "js_runtime \<Rightarrow> string \<Rightarrow> variables \<Rightarrow> val" where
  "resolveSelector rt selector variables =
     (let selectors = get_prop rt (VObj variables) ''_selectors'' in
      if truthy selectors \<and> truthy (get_prop rt selectors selector)
      then get_prop rt selectors selector
      else VStr [])"

definition resolveSelectorHtml :: "js_runtime \<Rightarrow> string \<Rightarrow> variables \<Rightarrow> val" where
  "resolveSelectorHtml rt selector variables =
     (let selectorsHtml = get_prop rt (VObj variables) ''_selectorsHtml'' in
      if truthy selectorsHtml \<and> truthy (get_prop rt selectorsHtml selector)
      then get_prop rt selectorsHtml selector
      else VStr [])"

text \<open>\<^verbatim>\<open>typeof type === 'object' && type !== null\<close>.\<close>

fun is_object :: "val \<Rightarrow> bool" where
  "is_object (VArr xs) = True"
| "is_object (VObj kvs) = True"
| "is_object (VNative kind text) = (kind \<noteq> NativeFunction)"
| "is_object v = False"

text \<open>The search of \<^verbatim>\<open>resolveSchema\<close> through every schema type.\<close>

fun schema_search :: "js_runtime \<Rightarrow> string \<Rightarrow> val list \<Rightarrow> val" where
  "schema_search rt expression [] = VStr []"
| "schema_search rt expression (t # ts) =
     (if is_object t
      then (let v = resolveProperty rt expression t in
            if v \<noteq> VStr [] then v else schema_search rt expression ts)
      else schema_search rt expression ts)"

definition resolveSchema :: "js_runtime \<Rightarrow> string \<Rightarrow> variables \<Rightarrow> val" where
  "resolveSchema rt expression variables =
     (let schema = get_prop rt (VObj variables) ''_schema'' in
      if \<not> truthy schema then VStr []
      else if startsWith expression ''@'' then
        (if CHR '':'' \<in> set expression then
           (let type = takeWhile (\<lambda>c. c \<noteq> CHR '':'') (tl expression);
                path = tl (dropWhile (\<lambda>c. c \<noteq> CHR '':'') expression);
                schemaType = get_prop rt schema type
            in if truthy schemaType then resolveProperty rt path schemaType else VStr [])
         else VStr [])
      else schema_search rt expression (object_values schema))"

definition resolve :: "js_runtime \<Rightarrow> string \<Rightarrow> variables \<Rightarrow> val" where
  "resolve rt name variables =
     (if startsWith name [dquote] \<and> endsWith name [dquote] then VStr (''{{'' @ name @ ''}}'')
      else if startsWith name ''meta:'' then resolveMeta rt (drop 5 name) variables
      else if startsWith name ''selector:'' then resolveSelector rt (drop 9 name) variables
      else if startsWith name ''selectorHtml:'' then resolveSelectorHtml rt (drop 13 name) variables
      else if startsWith name ''schema:'' then resolveSchema rt (drop 7 name) variables
      else resolveProperty rt name (VObj variables))"

section \<open>Filters (\<^verbatim>\<open>FilterProcessor\<close>)\<close>

text \<open>
  A filter takes the value and its string arguments (a missing argument is
  \<^verbatim>\<open>undefined\<close> and takes the default of the parameter). A filter whose work depends
  on code units is computed for ASCII text and is the runtime's filter of that name
  otherwise.
\<close>

type_synonym filter_fn = "val \<Rightarrow> string list \<Rightarrow> error + val"

type_synonym registry = "string \<Rightarrow> filter_fn option"

definition arg :: "string list \<Rightarrow> nat \<Rightarrow> string option" where
  "arg args i = (if i < length args then Some (args ! i) else None)"

definition arg_default :: "string list \<Rightarrow> nat \<Rightarrow> string \<Rightarrow> string" where
  "arg_default args i d = (case arg args i of None \<Rightarrow> d | Some a \<Rightarrow> a)"

definition lower_filter :: "js_runtime \<Rightarrow> filter_fn" where
  "lower_filter rt v args = Inr (VStr (toLowerCase rt (toString v)))"

definition upper_filter :: "js_runtime \<Rightarrow> filter_fn" where
  "upper_filter rt v args = Inr (VStr (toUpperCase rt (toString v)))"

text \<open>\<^verbatim>\<open>str.charAt(0).toUpperCase() + str.slice(1).toLowerCase()\<close>. The first code unit
  is the first \<open>char\<close> when that is ASCII (or the string is empty); a string that starts
  beyond ASCII is left to the runtime.\<close>

definition capitalize_filter :: "js_runtime \<Rightarrow> filter_fn" where
  "capitalize_filter rt v args =
     (let str = toString v in
      if ascii (take 1 str)
      then Inr (VStr (toUpperCase rt (take 1 str) @ toLowerCase rt (drop 1 str)))
      else runtime_filter rt ''capitalize'' v args)"

definition trim_filter :: "js_runtime \<Rightarrow> filter_fn" where
  "trim_filter rt v args = Inr (VStr (trim rt (toString v)))"

text \<open>A pattern with no operator of the regular expression language matches its own
  text, and a replacement without \<^verbatim>\<open>$\<close> is inserted as it is.\<close>

definition regexp_operators :: string where
  "regexp_operators = backslash # ''^$.|?*+()[]{}''"

definition literal_pattern :: "string \<Rightarrow> bool" where
  "literal_pattern p = list_all (\<lambda>c. c \<notin> set regexp_operators) p"

text \<open>The global replacement of a literal, non-empty pattern: matches are found from
  left to right and do not overlap (\<open>skip\<close> counts the characters of a match still to
  pass over).\<close>

fun replace_scan :: "string \<Rightarrow> string \<Rightarrow> nat \<Rightarrow> string \<Rightarrow> string" where
  "replace_scan p r skip [] = []"
| "replace_scan p r skip (c # cs) =
     (if 0 < skip then replace_scan p r (skip - 1) cs
      else if startsWith (c # cs) p then r @ replace_scan p r (length p - 1) cs
      else c # replace_scan p r 0 cs)"

text \<open>The empty pattern matches before every code unit and at the end.\<close>

definition replace_literal :: "string \<Rightarrow> string \<Rightarrow> string \<Rightarrow> string" where
  "replace_literal p r s =
     (if p = [] then r @ concat (map (\<lambda>c. c # r) s) else replace_scan p r 0 s)"

text \<open>\<^verbatim>\<open>String(value).replace(new RegExp(search, 'g'), replace)\<close>; an undefined
  \<^verbatim>\<open>search\<close> is the empty pattern. The model computes the literal case (for the empty
  pattern on ASCII text only, where a code unit is a \<open>char\<close>).\<close>

definition replace_filter :: "js_runtime \<Rightarrow> filter_fn" where
  "replace_filter rt v args =
     (let search = arg_default args 0 []; replace = arg_default args 1 [] in
      if literal_pattern search \<and> CHR ''$'' \<notin> set replace \<and> (ascii (toString v) \<or> search \<noteq> [])
      then Inr (VStr (replace_literal search replace (toString v)))
      else (case regexp_replace rt search replace (toString v) of
              Inl e \<Rightarrow> Inl e
            | Inr s \<Rightarrow> Inr (VStr s)))"

definition blockquote_filter :: filter_fn where
  "blockquote_filter v args =
     Inr (VStr (join_strings [CHR 0x0A]
       (map (\<lambda>line. ''> '' @ line) (split_char (CHR 0x0A) (toString v)))))"

definition wikilink_filter :: filter_fn where
  "wikilink_filter v args =
     (case as_array v of
        Some xs \<Rightarrow> Inr (VArr (map (\<lambda>x. VStr (''[['' @ toString x @ '']]'')) xs))
      | None \<Rightarrow>
        (if arg_default args 0 [] \<noteq> []
         then Inr (VStr (''[['' @ toString v @ ''|'' @ arg_default args 0 [] @ '']]''))
         else Inr (VStr (''[['' @ toString v @ '']]''))))"

definition link_filter :: filter_fn where
  "link_filter v args =
     (if arg_default args 0 [] \<noteq> []
      then Inr (VStr (''['' @ arg_default args 0 [] @ ''](''  @ toString v @ '')''))
      else Inr (VStr (''['' @ toString v @ ''](''  @ toString v @ '')'')))"

definition join_filter :: filter_fn where
  "join_filter v args =
     (case as_array v of
        Some xs \<Rightarrow> Inr (VStr (array_join xs (arg_default args 0 '', '')))
      | None \<Rightarrow> Inr v)"

text \<open>\<^verbatim>\<open>s.split(separator)\<close>: the empty separator gives the code units of \<open>s\<close>;
  otherwise the pieces between the occurrences of the separator, found from left to right
  without overlap (\<open>skip\<close> counts the characters of an occurrence still to pass over).\<close>

fun split_scan :: "string \<Rightarrow> nat \<Rightarrow> string \<Rightarrow> string \<Rightarrow> string list" where
  "split_scan sep skip current [] = [current]"
| "split_scan sep skip current (c # cs) =
     (if 0 < skip then split_scan sep (skip - 1) current cs
      else if startsWith (c # cs) sep then current # split_scan sep (length sep - 1) [] cs
      else split_scan sep 0 (current @ [c]) cs)"

definition split_string :: "string \<Rightarrow> string \<Rightarrow> string list" where
  "split_string s sep = (if sep = [] then map (\<lambda>c. [c]) s else split_scan sep 0 [] s)"

definition split_filter :: "js_runtime \<Rightarrow> filter_fn" where
  "split_filter rt v args =
     (if ascii (toString v) \<or> arg_default args 0 '','' \<noteq> []
      then Inr (VArr (map VStr (split_string (toString v) (arg_default args 0 '',''))))
      else runtime_filter rt ''split'' v args)"

definition first_filter :: filter_fn where
  "first_filter v args =
     (case as_array v of Some xs \<Rightarrow> Inr (nth_or_undefined xs 0) | None \<Rightarrow> Inr v)"

definition last_filter :: filter_fn where
  "last_filter v args =
     (case as_array v of
        Some xs \<Rightarrow> Inr (if xs = [] then VUndefined else last xs)
      | None \<Rightarrow> Inr v)"

text \<open>One line of the \<^verbatim>\<open>list\<close> filter, for the item at \<open>index\<close> (counted from 0).\<close>

definition list_item :: "string \<Rightarrow> nat \<Rightarrow> val \<Rightarrow> string" where
  "list_item type index item =
     (if type = ''numbered'' then show_nat (index + 1) @ ''. '' @ toString item
      else if type = ''task'' then ''- [ ] '' @ toString item
      else if type = ''numbered-task'' then show_nat (index + 1) @ ''. [ ] '' @ toString item
      else ''- '' @ toString item)"

definition list_filter :: filter_fn where
  "list_filter v args =
     (case as_array v of
        Some xs \<Rightarrow>
          Inr (VStr (join_strings [CHR 0x0A]
            (map (\<lambda>(index, item). list_item (arg_default args 0 ''bullet'') index item)
               (zip [0 ..< length xs] xs))))
      | None \<Rightarrow> Inr v)"

text \<open>\<^verbatim>\<open>length\<close>: the length of an array or of a string, the number of keys of an
  object, and 0 otherwise (a built-in object has no enumerable key).\<close>

definition length_filter :: "js_runtime \<Rightarrow> filter_fn" where
  "length_filter rt v args =
     (case v of
        VArr xs \<Rightarrow> Inr (VNum (int (length xs)))
      | VStr s \<Rightarrow> (if ascii s then Inr (VNum (int (length s))) else runtime_filter rt ''length'' v args)
      | VObj kvs \<Rightarrow> Inr (VNum (int (length kvs)))
      | _ \<Rightarrow> Inr (VNum 0))"

definition default_filter :: filter_fn where
  "default_filter v args =
     (if v = VNull \<or> v = VUndefined \<or> v = VStr [] then Inr (VStr (arg_default args 0 []))
      else Inr v)"

text \<open>\<^verbatim>\<open>register\<close>: \<^verbatim>\<open>this.filters.set(name, fn)\<close>.\<close>

definition register :: "registry \<Rightarrow> string \<Rightarrow> filter_fn \<Rightarrow> registry" where
  "register filters name fn = filters(name \<mapsto> fn)"

text \<open>The table \<^verbatim>\<open>registerBuiltinFilters\<close> fills, in the order of its calls.\<close>

definition builtin_table :: "js_runtime \<Rightarrow> (string \<times> filter_fn) list" where
  "builtin_table rt =
     [(''date'', runtime_filter rt ''date''),
      (''lower'', lower_filter rt),
      (''upper'', upper_filter rt),
      (''capitalize'', capitalize_filter rt),
      (''title'', runtime_filter rt ''title''),
      (''trim'', trim_filter rt),
      (''replace'', replace_filter rt),
      (''slice'', runtime_filter rt ''slice''),
      (''camel'', runtime_filter rt ''camel''),
      (''pascal'', runtime_filter rt ''pascal''),
      (''snake'', runtime_filter rt ''snake''),
      (''kebab'', runtime_filter rt ''kebab''),
      (''safe_name'', runtime_filter rt ''safe_name''),
      (''blockquote'', blockquote_filter),
      (''wikilink'', wikilink_filter),
      (''link'', link_filter),
      (''join'', join_filter),
      (''split'', split_filter rt),
      (''first'', first_filter),
      (''last'', last_filter),
      (''unique'', runtime_filter rt ''unique''),
      (''list'', list_filter),
      (''length'', length_filter rt),
      (''default'', default_filter),
      (''json'', runtime_filter rt ''json''),
      (''parse_json'', runtime_filter rt ''parse_json''),
      (''strip_html'', runtime_filter rt ''strip_html''),
      (''strip_md'', runtime_filter rt ''strip_md'')]"

definition registerBuiltinFilters :: "js_runtime \<Rightarrow> registry" where
  "registerBuiltinFilters rt =
     foldl (\<lambda>filters (name, fn). register filters name fn) Map.empty (builtin_table rt)"

text \<open>\<^verbatim>\<open>FilterProcessor.apply\<close>: an unknown name warns on the console and returns the
  value.\<close>

definition filter_apply ::
  "registry \<Rightarrow> string \<Rightarrow> val \<Rightarrow> string list \<Rightarrow> console \<Rightarrow> val outcome" where
  "filter_apply filters name v args con =
     (case filters name of
        None \<Rightarrow> (Inr v, con @ [''Unknown filter: '' @ name])
      | Some fn \<Rightarrow> (fn v args, con))"

section \<open>The template engine (\<^verbatim>\<open>TemplateEngine\<close>)\<close>

text \<open>The scan of \<^verbatim>\<open>parseExpression\<close>. \<open>prev\<close> is \<^verbatim>\<open>expression[i - 1]\<close>
  (\<open>None\<close> before the first character), \<open>quoteChar\<close> is \<open>None\<close> while it is still
  the empty string.\<close>

fun parseExpression_loop ::
  "js_runtime \<Rightarrow> char option \<Rightarrow> string \<Rightarrow> string list \<Rightarrow> string \<Rightarrow> bool \<Rightarrow> char option \<Rightarrow> int
     \<Rightarrow> string list" where
  "parseExpression_loop rt prev [] parts current inQuotes quoteChar depth =
     (if trim rt current \<noteq> [] then parts @ [trim rt current] else parts)"
| "parseExpression_loop rt prev (c # cs) parts current inQuotes quoteChar depth =
     (if (c = dquote \<or> c = squote) \<and> prev \<noteq> Some backslash then
        (if \<not> inQuotes then
           parseExpression_loop rt (Some c) cs parts (current @ [c]) True (Some c) depth
         else if Some c = quoteChar then
           parseExpression_loop rt (Some c) cs parts (current @ [c]) False quoteChar depth
         else
           parseExpression_loop rt (Some c) cs parts (current @ [c]) inQuotes quoteChar depth)
      else if c = CHR ''('' \<and> \<not> inQuotes then
        parseExpression_loop rt (Some c) cs parts (current @ [c]) inQuotes quoteChar (depth + 1)
      else if c = CHR '')'' \<and> \<not> inQuotes then
        parseExpression_loop rt (Some c) cs parts (current @ [c]) inQuotes quoteChar (depth - 1)
      else if c = CHR ''|'' \<and> \<not> inQuotes \<and> depth = 0 then
        parseExpression_loop rt (Some c) cs
          (if trim rt current \<noteq> [] then parts @ [trim rt current] else parts) [] inQuotes quoteChar depth
      else
        parseExpression_loop rt (Some c) cs parts (current @ [c]) inQuotes quoteChar depth)"

definition parseExpression :: "js_runtime \<Rightarrow> string \<Rightarrow> string list" where
  "parseExpression rt expression = parseExpression_loop rt None expression [] [] False None 0"

definition unquote :: "string \<Rightarrow> string" where
  "unquote str =
     (if (startsWith str [dquote] \<and> endsWith str [dquote])
         \<or> (startsWith str [squote] \<and> endsWith str [squote])
      then slice_1_m1 str else str)"

text \<open>The scan of \<^verbatim>\<open>parseFilterArgs\<close>, after the outer parentheses are removed.\<close>

fun parseFilterArgs_loop ::
  "js_runtime \<Rightarrow> char option \<Rightarrow> string \<Rightarrow> string list \<Rightarrow> string \<Rightarrow> bool \<Rightarrow> char option \<Rightarrow> int
     \<Rightarrow> string list" where
  "parseFilterArgs_loop rt prev [] args current inQuotes quoteChar depth =
     (if trim rt current \<noteq> [] then args @ [unquote (trim rt current)] else args)"
| "parseFilterArgs_loop rt prev (c # cs) args current inQuotes quoteChar depth =
     (if (c = dquote \<or> c = squote) \<and> prev \<noteq> Some backslash then
        (if \<not> inQuotes then
           parseFilterArgs_loop rt (Some c) cs args (current @ [c]) True (Some c) depth
         else if Some c = quoteChar then
           parseFilterArgs_loop rt (Some c) cs args (current @ [c]) False quoteChar depth
         else
           parseFilterArgs_loop rt (Some c) cs args (current @ [c]) inQuotes quoteChar depth)
      else if c = CHR ''('' \<and> \<not> inQuotes then
        parseFilterArgs_loop rt (Some c) cs args (current @ [c]) inQuotes quoteChar (depth + 1)
      else if c = CHR '')'' \<and> \<not> inQuotes then
        parseFilterArgs_loop rt (Some c) cs args (current @ [c]) inQuotes quoteChar (depth - 1)
      else if c = CHR '','' \<and> \<not> inQuotes \<and> depth = 0 then
        parseFilterArgs_loop rt (Some c) cs
          (if trim rt current \<noteq> [] then args @ [unquote (trim rt current)] else args) []
          inQuotes quoteChar depth
      else
        parseFilterArgs_loop rt (Some c) cs args (current @ [c]) inQuotes quoteChar depth)"

definition parseFilterArgs :: "js_runtime \<Rightarrow> string \<Rightarrow> string list" where
  "parseFilterArgs rt argsString =
     parseFilterArgs_loop rt None
       (if startsWith argsString ''('' \<and> endsWith argsString '')''
        then slice_1_m1 argsString else argsString)
       [] [] False None 0"

text \<open>\<^verbatim>\<open>parseFilter\<close>: the name is the text before the first colon
  (\<^verbatim>\<open>filter.indexOf(':')\<close>), the arguments are parsed from the text after it.\<close>

definition parseFilter :: "js_runtime \<Rightarrow> string \<Rightarrow> string \<times> string list" where
  "parseFilter rt f =
     (if CHR '':'' \<in> set f
      then (trim rt (takeWhile (\<lambda>c. c \<noteq> CHR '':'') f),
            parseFilterArgs rt (trim rt (tl (dropWhile (\<lambda>c. c \<noteq> CHR '':'') f))))
      else (f, []))"

text \<open>\<^verbatim>\<open>stringify\<close>: the empty string for \<^verbatim>\<open>null\<close> and \<^verbatim>\<open>undefined\<close>, a
  string as it is, an array joined, another object through \<^verbatim>\<open>JSON.stringify\<close>, and
  \<^verbatim>\<open>String(value)\<close> for the rest.\<close>

definition stringify :: "js_runtime \<Rightarrow> val \<Rightarrow> string" where
  "stringify rt v =
     (if nullish v then []
      else (case v of
              VStr s \<Rightarrow> s
            | _ \<Rightarrow>
              (case as_array v of
                 Some xs \<Rightarrow> array_join xs '', ''
               | None \<Rightarrow> (if is_object v then json_stringify rt v else toString v))))"

text \<open>The loop \<^verbatim>\<open>for (const filter of filters)\<close> of \<^verbatim>\<open>processExpression\<close>; an
  exception thrown by a filter leaves the loop.\<close>

fun apply_filters ::
  "js_runtime \<Rightarrow> registry \<Rightarrow> string list \<Rightarrow> val \<Rightarrow> console \<Rightarrow> val outcome" where
  "apply_filters rt filters [] v con = (Inr v, con)"
| "apply_filters rt filters (f # fs) v con =
     (case filter_apply filters (fst (parseFilter rt f)) v (snd (parseFilter rt f)) con of
        (Inl e, con') \<Rightarrow> (Inl e, con')
      | (Inr v', con') \<Rightarrow> apply_filters rt filters fs v' con')"

text \<open>\<^verbatim>\<open>processExpression\<close>. When \<^verbatim>\<open>parseExpression\<close> returns no part,
  \<^verbatim>\<open>parts[0]\<close> is \<^verbatim>\<open>undefined\<close> and \<^verbatim>\<open>name.startsWith\<close> in
  \<^verbatim>\<open>resolve\<close> throws a \<^verbatim>\<open>TypeError\<close>.\<close>

definition processExpression ::
  "js_runtime \<Rightarrow> registry \<Rightarrow> string \<Rightarrow> variables \<Rightarrow> console \<Rightarrow> string outcome" where
  "processExpression rt filters expression variables con =
     (case parseExpression rt expression of
        [] \<Rightarrow> (Inl TypeError, con)
      | variableName # fs \<Rightarrow>
          (case apply_filters rt filters fs (resolve rt variableName variables) con of
             (Inl e, con') \<Rightarrow> (Inl e, con')
           | (Inr v, con') \<Rightarrow> (Inr (stringify rt v), con')))"

text \<open>A match of \<^verbatim>\<open>/\{\{([^}]+)\}\}/\<close> at the start of \<open>s\<close>: the captured group
  and the text after the match. The group is the longest run without a closing brace, and
  two closing braces must follow it.\<close>

definition match_placeholder :: "string \<Rightarrow> (string \<times> string) option" where
  "match_placeholder s =
     (if startsWith s ''{{'' then
        (let inner = takeWhile (\<lambda>c. c \<noteq> CHR ''}'') (drop 2 s);
             rest = dropWhile (\<lambda>c. c \<noteq> CHR ''}'') (drop 2 s)
         in if inner \<noteq> [] \<and> startsWith rest ''}}'' then Some (inner, drop 2 rest) else None)
      else None)"

lemma startsWith_length: "startsWith s p \<Longrightarrow> length p \<le> length s"
proof -
  assume "startsWith s p"
  then have "length (take (length p) s) = length p"
    by (simp only: startsWith_def)
  then show ?thesis
    by simp
qed

lemma match_placeholder_shorter:
  "match_placeholder s = Some (inner, rest) \<Longrightarrow> length rest < length s"
proof -
  assume m: "match_placeholder s = Some (inner, rest)"
  then have st: "startsWith s ''{{''"
    by (simp add: match_placeholder_def split: if_splits)
  with m have r: "rest = drop 2 (dropWhile (\<lambda>c. c \<noteq> CHR ''}'') (drop 2 s))"
    by (auto simp: match_placeholder_def Let_def split: if_splits)
  from st have "2 \<le> length s"
    by (drule_tac startsWith_length) simp
  moreover have "length (dropWhile (\<lambda>c. c \<noteq> CHR ''}'') (drop 2 s)) \<le> length (drop 2 s)"
    by (rule length_dropWhile_le)
  then have "length rest \<le> length (drop 2 s)"
    unfolding r by simp
  ultimately show ?thesis by simp
qed

text \<open>\<^verbatim>\<open>template.replace(/\{\{([^}]+)\}\}/g, callback)\<close>: the matches are taken from
  left to right without overlap, the text between them is kept, and an exception of the
  callback ends the call.\<close>

function render_from ::
  "js_runtime \<Rightarrow> registry \<Rightarrow> variables \<Rightarrow> string \<Rightarrow> console \<Rightarrow> string outcome" where
  "render_from rt filters variables [] con = (Inr [], con)"
| "render_from rt filters variables (c # cs) con =
     (case match_placeholder (c # cs) of
        Some (expression, rest) \<Rightarrow>
          (case processExpression rt filters (trim rt expression) variables con of
             (Inl e, con') \<Rightarrow> (Inl e, con')
           | (Inr out, con') \<Rightarrow>
               (case render_from rt filters variables rest con' of
                  (Inl e, con'') \<Rightarrow> (Inl e, con'')
                | (Inr text, con'') \<Rightarrow> (Inr (out @ text), con'')))
      | None \<Rightarrow>
          (case render_from rt filters variables cs con of
             (Inl e, con') \<Rightarrow> (Inl e, con')
           | (Inr text, con') \<Rightarrow> (Inr (c # text), con')))"
  by pat_completeness auto
termination
  by (relation "measure (\<lambda>(rt, filters, variables, s, con). length s)")
     (auto dest: match_placeholder_shorter)

definition render ::
  "js_runtime \<Rightarrow> registry \<Rightarrow> string \<Rightarrow> variables \<Rightarrow> console \<Rightarrow> string outcome" where
  "render rt filters template variables con = render_from rt filters variables template con"

section \<open>Definitions that follow the specification\<close>

text \<open>The specification writes the result of a filter chain \<open>f1, ..., fn\<close> as the nested
  application \<^verbatim>\<open>apply(fn, ... apply(f2, apply(f1, x)) ...)\<close>. \<open>nested_apply\<close> takes the
  calls outermost first (\<open>fn\<close> at the head): the inner calls are evaluated first, and the
  head is applied to their result.\<close>

fun nested_apply ::
  "registry \<Rightarrow> (string \<times> string list) list \<Rightarrow> val \<Rightarrow> console \<Rightarrow> val outcome" where
  "nested_apply filters [] v con = (Inr v, con)"
| "nested_apply filters (call # inner) v con =
     (case nested_apply filters inner v con of
        (Inl e, con') \<Rightarrow> (Inl e, con')
      | (Inr w, con') \<Rightarrow> filter_apply filters (fst call) w (snd call) con')"

text \<open>The last step of \<^verbatim>\<open>processExpression\<close>: the value is stringified, an exception is
  passed on.\<close>

definition stringified :: "js_runtime \<Rightarrow> val outcome \<Rightarrow> string outcome" where
  "stringified rt out =
     (case out of (Inl e, con) \<Rightarrow> (Inl e, con) | (Inr v, con) \<Rightarrow> (Inr (stringify rt v), con))"

text \<open>A template contains a placeholder when some part of it is \<^verbatim>\<open>{{\<close>, a non-empty
  body without a closing brace, and \<^verbatim>\<open>}}\<close>.\<close>

definition contains_placeholder :: "string \<Rightarrow> bool" where
  "contains_placeholder t =
     (\<exists>pre body post. t = pre @ ''{{'' @ body @ ''}}'' @ post \<and> body \<noteq> [] \<and> CHR ''}'' \<notin> set body)"

text \<open>The same test as a computation: the regular expression matches at some position.\<close>

fun has_match :: "string \<Rightarrow> bool" where
  "has_match [] = False"
| "has_match (c # cs) = (match_placeholder (c # cs) \<noteq> None \<or> has_match cs)"

text \<open>A prompt literal: a name that begins and ends with a double quote.\<close>

definition quoted :: "string \<Rightarrow> bool" where
  "quoted name = (startsWith name [dquote] \<and> endsWith name [dquote])"

section \<open>Evaluation rules\<close>

lemmas string_defs = dquote_def squote_def backslash_def is_ascii_def ascii_def is_space_def
  trim_def startsWith_def endsWith_def slice_1_m1_def lower_letters_def upper_letters_def
  upper_char_def lower_char_def toUpperCase_def toLowerCase_def is_digit_def is_word_def

lemmas resolve_defs = resolve_def resolveProperty_def resolveMeta_def resolveSelector_def
  resolveSelectorHtml_def resolveSchema_def match_index_def nullish_def or_empty_def
  array_index_def nth_or_undefined_def object_prototype_members_def

lemmas engine_defs = render_def match_placeholder_def processExpression_def parseExpression_def
  parseFilter_def parseFilterArgs_def unquote_def stringify_def filter_apply_def

lemmas registry_defs = registerBuiltinFilters_def builtin_table_def register_def

section \<open>The filter chain is a left-to-right fold\<close>

lemma nested_apply_snoc:
  "nested_apply filters (inner @ [call]) v con =
     (case filter_apply filters (fst call) v (snd call) con of
        (Inl e, con') \<Rightarrow> (Inl e, con')
      | (Inr w, con') \<Rightarrow> nested_apply filters inner w con')"
proof (induction inner)
  case Nil
  show ?case by (simp split: prod.splits sum.splits)
next
  case (Cons c inner)
  then show ?case by (simp split: prod.splits sum.splits)
qed

lemma apply_filters_nested:
  "apply_filters rt filters fs v con = nested_apply filters (rev (map (parseFilter rt) fs)) v con"
proof (induction fs arbitrary: v con)
  case Nil
  show ?case by simp
next
  case (Cons f fs)
  show ?case
    by (simp add: nested_apply_snoc Cons.IH split: prod.splits sum.splits)
qed

lemma processExpression_nested:
  assumes "parseExpression rt expression = variableName # fs"
  shows "processExpression rt filters expression variables con =
           stringified rt
             (nested_apply filters (rev (map (parseFilter rt) fs))
                (resolve rt variableName variables) con)"
  using assms by (simp add: processExpression_def apply_filters_nested stringified_def)

lemma resolve_quoted:
  "quoted name \<Longrightarrow> resolve rt name variables = VStr (''{{'' @ name @ ''}}'')"
  by (simp add: resolve_def quoted_def)

section \<open>Matches of the placeholder pattern\<close>

lemma match_placeholder_intro:
  assumes "body \<noteq> []" and "CHR ''}'' \<notin> set body"
  shows "match_placeholder (''{{'' @ body @ ''}}'' @ post) = Some (body, post)"
proof -
  have tw: "takeWhile (\<lambda>c. c \<noteq> CHR ''}'') (body @ CHR ''}'' # CHR ''}'' # post) = body"
    using assms(2) by (induction body) auto
  have dw: "dropWhile (\<lambda>c. c \<noteq> CHR ''}'') (body @ CHR ''}'' # CHR ''}'' # post)
      = CHR ''}'' # CHR ''}'' # post"
    using assms(2) by (induction body) auto
  show ?thesis
    using assms(1) by (simp add: match_placeholder_def startsWith_def tw dw)
qed

lemma match_placeholder_elim:
  assumes "match_placeholder s = Some (body, post)"
  shows "s = ''{{'' @ body @ ''}}'' @ post \<and> body \<noteq> [] \<and> CHR ''}'' \<notin> set body"
proof -
  let ?P = "\<lambda>c. c \<noteq> CHR ''}''"
  from assms have st: "startsWith s ''{{''"
    by (simp add: match_placeholder_def split: if_splits)
  from assms st have b: "body = takeWhile ?P (drop 2 s)" and ne: "body \<noteq> []"
    and st2: "startsWith (dropWhile ?P (drop 2 s)) ''}}''"
    and p: "post = drop 2 (dropWhile ?P (drop 2 s))"
    by (auto simp: match_placeholder_def Let_def split: if_splits)
  from st have s: "s = ''{{'' @ drop 2 s"
    by (metis append_take_drop_id startsWith_def length_Cons list.size(3) One_nat_def Suc_1)
  from st2 have d: "dropWhile ?P (drop 2 s) = ''}}'' @ post"
    unfolding p
    by (metis append_take_drop_id startsWith_def length_Cons list.size(3) One_nat_def Suc_1)
  have "drop 2 s = takeWhile ?P (drop 2 s) @ dropWhile ?P (drop 2 s)"
    by simp
  then have "drop 2 s = body @ ''}}'' @ post"
    using b d by simp
  with s have "s = ''{{'' @ body @ ''}}'' @ post" by simp
  moreover have "CHR ''}'' \<notin> set body"
    unfolding b by (auto dest: set_takeWhileD)
  ultimately show ?thesis using ne by simp
qed

lemma contains_placeholder_Cons:
  "contains_placeholder cs \<Longrightarrow> contains_placeholder (c # cs)"
  unfolding contains_placeholder_def
  by (metis append_Cons)

lemma contains_placeholder_match:
  "match_placeholder s = Some (body, post) \<Longrightarrow> contains_placeholder s"
  unfolding contains_placeholder_def
  by (metis match_placeholder_elim append_Nil)

lemma has_match_iff: "has_match t = contains_placeholder t"
proof (induction t)
  case Nil
  show ?case by (simp add: contains_placeholder_def)
next
  case (Cons c cs)
  show ?case
  proof
    assume "has_match (c # cs)"
    then show "contains_placeholder (c # cs)"
      using Cons.IH contains_placeholder_Cons contains_placeholder_match by auto
  next
    assume "contains_placeholder (c # cs)"
    then obtain pre body post where t: "c # cs = pre @ ''{{'' @ body @ ''}}'' @ post"
      and b: "body \<noteq> []" "CHR ''}'' \<notin> set body"
      unfolding contains_placeholder_def by blast
    show "has_match (c # cs)"
    proof (cases pre)
      case Nil
      with t b show ?thesis
        using match_placeholder_intro [of body post] by simp
    next
      case (Cons p pre')
      with t have "cs = pre' @ ''{{'' @ body @ ''}}'' @ post" by simp
      with b have "contains_placeholder cs"
        unfolding contains_placeholder_def by blast
      with Cons.IH show ?thesis by simp
    qed
  qed
qed

lemma render_from_no_placeholder:
  "\<not> contains_placeholder t \<Longrightarrow> render_from rt filters variables t con = (Inr t, con)"
proof (induction t)
  case Nil
  show ?case by simp
next
  case (Cons c cs)
  from Cons.prems have "match_placeholder (c # cs) = None"
    using contains_placeholder_match by (cases "match_placeholder (c # cs)") auto
  moreover from Cons.prems have "\<not> contains_placeholder cs"
    using contains_placeholder_Cons by blast
  ultimately show ?case
    using Cons.IH by simp
qed

lemma render_single:
  assumes "body \<noteq> []" and "CHR ''}'' \<notin> set body"
  shows "render rt filters (''{{'' @ body @ ''}}'') variables con =
         processExpression rt filters (trim rt body) variables con"
proof -
  have "match_placeholder (CHR ''{'' # CHR ''{'' # body @ ''}}'') = Some (body, [])"
    using match_placeholder_intro [OF assms, of "[]"] by simp
  then show ?thesis
    by (simp add: render_def split: prod.splits sum.splits)
qed

section \<open>Meta variables with a tag name that has no colon\<close>

lemma split_char_no_sep: "sep \<notin> set s \<Longrightarrow> split_char sep s = [s]"
proof (induction s)
  case Nil
  show ?case by simp
next
  case (Cons c s)
  then have "c \<noteq> sep" and "split_char sep s = [s]" by auto
  then show ?case by simp
qed

lemma split_char_at_sep:
  "sep \<notin> set a \<Longrightarrow> split_char sep (a @ sep # b) = a # split_char sep b"
proof (induction a)
  case Nil
  show ?case by simp
next
  case (Cons c a)
  then have "c \<noteq> sep" and "split_char sep (a @ sep # b) = a # split_char sep b" by auto
  then show ?case by simp
qed

lemma resolve_meta_prefix: "resolve rt (''meta:'' @ e) variables = resolveMeta rt e variables"
  by (simp add: resolve_def startsWith_def endsWith_def dquote_def)

text \<open>For a tag name without a colon the code reads the key the documentation names.\<close>

lemma resolveMeta_plain_tag:
  assumes ty: "ty = ''name'' \<or> ty = ''property''"
    and t: "CHR '':'' \<notin> set t"
    and md: "map_of variables ''metadata'' = Some (VObj md)"
  shows "resolve rt (''meta:'' @ ty @ '':'' @ t) variables =
           or_empty (get_prop rt (VObj md) (''meta_'' @ ty @ ''_'' @ t))"
proof -
  from ty have c: "CHR '':'' \<notin> set ty" by auto
  have "split_char (CHR '':'') (ty @ CHR '':'' # t) = [ty, t]"
    using split_char_at_sep [OF c] split_char_no_sep [OF t] by simp
  then have sp: "split_char (CHR '':'') (ty @ '':'' @ t) = [ty, t]" by simp
  have m: "get_prop rt (VObj variables) ''metadata'' = VObj md"
    using md by simp
  have "resolveMeta rt (ty @ '':'' @ t) variables =
      or_empty (get_prop rt (VObj md) (''meta_'' @ ty @ ''_'' @ t))"
    unfolding resolveMeta_def m sp Let_def using ty by simp
  then show ?thesis
    unfolding resolve_meta_prefix .
qed

section \<open>Prefixes of selector variables, and the case of ASCII text\<close>





text \<open>Lower-casing leaves an ASCII character unchanged exactly when it is no upper-case
  letter.\<close>

lemma lower_char_fixed: "c \<notin> set upper_letters \<Longrightarrow> lower_char c = c"
  by (simp add: lower_char_def upper_letters_def lower_letters_def)

lemma lower_char_moves: "c \<in> set upper_letters \<Longrightarrow> lower_char c \<noteq> c"
  by (auto simp: lower_char_def upper_letters_def lower_letters_def)

lemma ascii_take_drop: "ascii s \<Longrightarrow> ascii (take n s) \<and> ascii (drop n s)"
  unfolding ascii_def list_all_iff
  by (auto dest: in_set_takeD in_set_dropD)

section \<open>The claims\<close>

text \<open>C1. The specification says that \<^verbatim>\<open>render\<close> never throws for a malformed
  placeholder, an empty or white-space body included. The code does throw there: for the
  template \<^verbatim>\<open>{{ }}\<close> the body is trimmed to the empty string, \<^verbatim>\<open>parseExpression\<close>
  returns no part, \<^verbatim>\<open>parts[0]\<close> is \<^verbatim>\<open>undefined\<close>, and \<^verbatim>\<open>resolve\<close> throws a
  \<^verbatim>\<open>TypeError\<close>, whatever the registry, the context and the runtime are.\<close>

theorem render_blank_placeholder_throws:
  "render rt filters ''{{ }}'' variables con = (Inl TypeError, con)"
  by (simp add: string_defs engine_defs)

text \<open>C2. When the body of a placeholder parses to a variable path and the filter chain
  \<open>f1, ..., fn\<close>, the text substituted for the placeholder is the stringified value of
  \<^verbatim>\<open>apply(fn, ... apply(f1, resolve(v, context)) ...)\<close>: the chain is folded from left to
  right, each filter receives the result of the one before it (and an exception or a
  warning of an earlier filter comes first). So
  \<^verbatim>\<open>render("{{a|upper|trim}}", {a: " hi "})\<close> is \<^verbatim>\<open>"HI"\<close>.\<close>

theorem render_filter_chain_is_left_fold:
  "(parseExpression rt expression = variableName # fs \<longrightarrow>
      processExpression rt filters expression variables con =
        stringified rt
          (nested_apply filters (rev (map (parseFilter rt) fs))
             (resolve rt variableName variables) con))
   \<and> (body \<noteq> [] \<and> CHR ''}'' \<notin> set body
        \<and> parseExpression rt (trim rt body) = variableName # fs \<longrightarrow>
      render rt filters (''{{'' @ body @ ''}}'') variables con =
        stringified rt
          (nested_apply filters (rev (map (parseFilter rt) fs))
             (resolve rt variableName variables) con))
   \<and> render rt' (registerBuiltinFilters rt') ''{{a|upper|trim}}'' [(''a'', VStr '' hi '')] con'
       = (Inr ''HI'', con')"
proof (intro conjI impI)
  assume "parseExpression rt expression = variableName # fs"
  then show "processExpression rt filters expression variables con =
        stringified rt
          (nested_apply filters (rev (map (parseFilter rt) fs))
             (resolve rt variableName variables) con)"
    by (rule processExpression_nested)
next
  assume a: "body \<noteq> [] \<and> CHR ''}'' \<notin> set body
      \<and> parseExpression rt (trim rt body) = variableName # fs"
  then have "render rt filters (''{{'' @ body @ ''}}'') variables con =
      processExpression rt filters (trim rt body) variables con"
    using render_single by blast
  with a show "render rt filters (''{{'' @ body @ ''}}'') variables con =
        stringified rt
          (nested_apply filters (rev (map (parseFilter rt) fs))
             (resolve rt variableName variables) con)"
    by (simp add: processExpression_nested)
next
  show "render rt' (registerBuiltinFilters rt') ''{{a|upper|trim}}'' [(''a'', VStr '' hi '')] con'
       = (Inr ''HI'', con')"
    by (simp add: string_defs engine_defs registry_defs resolve_defs upper_filter_def
        trim_filter_def)
qed

theorem render_filter_chain_is_left_fold_witness:
  "\<forall>rt. (''a | trim|upper'' \<noteq> [] \<and> CHR ''}'' \<notin> set ''a | trim|upper''
          \<and> parseExpression rt (trim rt ''a | trim|upper'') = ''a'' # [''trim'', ''upper''])
     \<and> render rt (registerBuiltinFilters rt) (''{{'' @ ''a | trim|upper'' @ ''}}'')
          [(''a'', VStr '' hi '')] []
        = stringified rt (nested_apply (registerBuiltinFilters rt)
            (rev (map (parseFilter rt) [''trim'', ''upper'']))
            (resolve rt ''a'' [(''a'', VStr '' hi '')]) [])
     \<and> processExpression rt (registerBuiltinFilters rt) (trim rt ''a | trim|upper'')
          [(''a'', VStr '' hi '')] []
        = stringified rt (nested_apply (registerBuiltinFilters rt)
            (rev (map (parseFilter rt) [''trim'', ''upper'']))
            (resolve rt ''a'' [(''a'', VStr '' hi '')]) [])
     \<and> stringified rt (nested_apply (registerBuiltinFilters rt)
            (rev (map (parseFilter rt) [''trim'', ''upper'']))
            (resolve rt ''a'' [(''a'', VStr '' hi '')]) [])
        = (Inr ''HI'', [])"
proof
  fix rt
  have h: "''a | trim|upper'' \<noteq> [] \<and> CHR ''}'' \<notin> set ''a | trim|upper''
          \<and> parseExpression rt (trim rt ''a | trim|upper'') = ''a'' # [''trim'', ''upper'']"
    by (simp add: string_defs engine_defs)
  have n: "stringified rt (nested_apply (registerBuiltinFilters rt)
            (rev (map (parseFilter rt) [''trim'', ''upper'']))
            (resolve rt ''a'' [(''a'', VStr '' hi '')]) [])
        = (Inr ''HI'', [])"
    by (simp add: string_defs engine_defs registry_defs resolve_defs upper_filter_def
        trim_filter_def stringified_def)
  show "(''a | trim|upper'' \<noteq> [] \<and> CHR ''}'' \<notin> set ''a | trim|upper''
          \<and> parseExpression rt (trim rt ''a | trim|upper'') = ''a'' # [''trim'', ''upper''])
     \<and> render rt (registerBuiltinFilters rt) (''{{'' @ ''a | trim|upper'' @ ''}}'')
          [(''a'', VStr '' hi '')] []
        = stringified rt (nested_apply (registerBuiltinFilters rt)
            (rev (map (parseFilter rt) [''trim'', ''upper'']))
            (resolve rt ''a'' [(''a'', VStr '' hi '')]) [])
     \<and> processExpression rt (registerBuiltinFilters rt) (trim rt ''a | trim|upper'')
          [(''a'', VStr '' hi '')] []
        = stringified rt (nested_apply (registerBuiltinFilters rt)
            (rev (map (parseFilter rt) [''trim'', ''upper'']))
            (resolve rt ''a'' [(''a'', VStr '' hi '')]) [])
     \<and> stringified rt (nested_apply (registerBuiltinFilters rt)
            (rev (map (parseFilter rt) [''trim'', ''upper'']))
            (resolve rt ''a'' [(''a'', VStr '' hi '')]) [])
        = (Inr ''HI'', [])"
    using h n
      render_filter_chain_is_left_fold
        [of rt "trim rt ''a | trim|upper''" "''a''" "[''trim'', ''upper'']"
          "registerBuiltinFilters rt" "[(''a'', VStr '' hi '')]" "[]" "''a | trim|upper''"]
    by blast
qed

text \<open>C3. The specification and the template documentation separate the two arguments of
  \<^verbatim>\<open>replace\<close> by a colon and expect \<^verbatim>\<open>render('{{a|replace:",":";"}}', {a: "1,2,3"})\<close>
  to be \<^verbatim>\<open>"1;2;3"\<close>. The code splits arguments at commas only: the whole text
  \<^verbatim>\<open>",":";"\<close> is one argument, its outer quotes are removed, and the search pattern
  \<^verbatim>\<open>,":";\<close> does not occur in the value, which is returned unchanged.\<close>

theorem render_replace_colon_separated_args:
  \<open>parseFilter rt ''replace:",":";"'' = (''replace'', ['',":";''])
   \<and> render rt (registerBuiltinFilters rt) ''{{a|replace:",":";"}}'' [(''a'', VStr ''1,2,3'')] con
       = (Inr ''1,2,3'', con)\<close>
  by (simp add: string_defs engine_defs registry_defs resolve_defs replace_filter_def
      arg_default_def arg_def literal_pattern_def regexp_operators_def replace_literal_def)

text \<open>C4. A name that begins and ends with a double quote is a prompt literal:
  \<^verbatim>\<open>resolve\<close> returns the placeholder text \<^verbatim>\<open>{{name}}\<close> for every context, without
  reading it, and \<^verbatim>\<open>render('{{"summarize this"}}', ctx)\<close> is the placeholder itself.\<close>

theorem resolve_prompt_literal:
  \<open>(startsWith name [dquote] \<and> endsWith name [dquote] \<longrightarrow>
      resolve rt name variables = VStr (''{{'' @ name @ ''}}''))
   \<and> render rt' filters ''{{"summarize this"}}'' variables' con
       = (Inr ''{{"summarize this"}}'', con)\<close>
  by (simp add: resolve_def) (simp add: string_defs engine_defs resolve_defs)

theorem resolve_prompt_literal_witness:
  \<open>\<forall>rt. startsWith ''"summarize this"'' [dquote] \<and> endsWith ''"summarize this"'' [dquote]
   \<and> resolve rt ''"summarize this"'' [(''title'', VStr ''T'')] = VStr ''{{"summarize this"}}''\<close>
proof
  fix rt
  have h: \<open>startsWith ''"summarize this"'' [dquote] \<and> endsWith ''"summarize this"'' [dquote]\<close>
    by (simp add: string_defs)
  show \<open>startsWith ''"summarize this"'' [dquote] \<and> endsWith ''"summarize this"'' [dquote]
   \<and> resolve rt ''"summarize this"'' [(''title'', VStr ''T'')] = VStr ''{{"summarize this"}}''\<close>
    using h resolve_prompt_literal [of \<open>''"summarize this"''\<close> rt "[(''title'', VStr ''T'')]"]
    by simp
qed

text \<open>C5. The specification expects \<^verbatim>\<open>meta:property:og:title\<close> to read the key
  \<^verbatim>\<open>meta_property_og:title\<close> of the metadata (a tag name may contain a colon). The code
  splits the expression at every colon and keeps the first two parts only, so it reads the
  key \<^verbatim>\<open>meta_property_og\<close>: the value stored under \<^verbatim>\<open>meta_property_og:title\<close> is not
  found.\<close>

theorem resolveMeta_tag_with_colon:
  "resolve rt ''meta:property:og:title''
       [(''metadata'', VObj [(''meta_property_og:title'', VStr ''T'')])] = VStr []
   \<and> resolve rt ''meta:property:og:title''
       [(''metadata'', VObj [(''meta_property_og:title'', VStr ''T''),
                              (''meta_property_og'', VStr ''U'')])] = VStr ''U''"
  by (simp add: string_defs resolve_defs)




text \<open>C7. The claim says that \<^verbatim>\<open>capitalize\<close> leaves every character but the first
  unchanged. The code lower-cases the rest (\<^verbatim>\<open>str.slice(1).toLowerCase()\<close>):
  \<^verbatim>\<open>"aB"\<close> becomes \<^verbatim>\<open>"Ab"\<close>, not \<^verbatim>\<open>"AB"\<close>.\<close>

theorem capitalize_changes_rest_counterexample:
  "\<forall>rt. capitalize_filter rt (VStr ''aB'') [] = Inr (VStr ''Ab'')
   \<and> ''Ab'' \<noteq> upper_char (CHR ''a'') # ''B''"
  by (simp add: string_defs capitalize_filter_def)

text \<open>C7, as amended. For every ASCII string, \<^verbatim>\<open>capitalize\<close> returns a string of the
  same length whose first character is the upper-cased first character and whose every
  other character is the lower-cased character at that place. For every string that
  starts with an ASCII character, the result is that character upper-cased, followed by
  \<^verbatim>\<open>toLowerCase\<close> of the rest.\<close>

theorem capitalize_upper_first_lower_rest:
  "(ascii s \<longrightarrow>
      (\<exists>r. capitalize_filter rt (VStr s) args = Inr (VStr r) \<and> length r = length s
         \<and> (\<forall>i. i < length s \<longrightarrow>
               r ! i = (if i = 0 then upper_char (s ! i) else lower_char (s ! i)))))
   \<and> (ascii (take 1 s) \<longrightarrow>
        capitalize_filter rt (VStr s) args =
          Inr (VStr (map upper_char (take 1 s) @ toLowerCase rt (drop 1 s))))"
proof (intro conjI impI)
  assume a: "ascii s"
  then have a1: "ascii (take 1 s)" and a2: "ascii (drop 1 s)"
    using ascii_take_drop by blast+
  show "\<exists>r. capitalize_filter rt (VStr s) args = Inr (VStr r) \<and> length r = length s
         \<and> (\<forall>i. i < length s \<longrightarrow>
               r ! i = (if i = 0 then upper_char (s ! i) else lower_char (s ! i)))"
  proof (cases s)
    case Nil
    then show ?thesis
      by (simp add: capitalize_filter_def toUpperCase_def toLowerCase_def ascii_def)
  next
    case (Cons c cs)
    have "capitalize_filter rt (VStr s) args = Inr (VStr (upper_char c # map lower_char cs))"
      using a1 a2 by (simp add: Cons capitalize_filter_def toUpperCase_def toLowerCase_def)
    moreover have "\<forall>i. i < length s \<longrightarrow>
        (upper_char c # map lower_char cs) ! i
          = (if i = 0 then upper_char (s ! i) else lower_char (s ! i))"
      by (auto simp: Cons nth_Cons')
    ultimately show ?thesis
      by (simp add: Cons)
  qed
next
  assume "ascii (take 1 s)"
  then show "capitalize_filter rt (VStr s) args =
          Inr (VStr (map upper_char (take 1 s) @ toLowerCase rt (drop 1 s)))"
    by (simp add: capitalize_filter_def toUpperCase_def)
qed

theorem capitalize_upper_first_lower_rest_witness:
  "\<forall>rt. ascii ''hELLO wORLD'' \<and> ascii (take 1 ''hELLO wORLD'')
   \<and> capitalize_filter rt (VStr ''hELLO wORLD'') [] = Inr (VStr ''Hello world'')
   \<and> (1::nat) < length ''hELLO wORLD''
   \<and> ''Hello world'' ! 1 = lower_char (''hELLO wORLD'' ! 1)"
proof
  fix rt
  have a: "ascii ''hELLO wORLD''" by (simp add: ascii_def is_ascii_def)
  have a1: "ascii (take 1 ''hELLO wORLD'')" by (simp add: ascii_def is_ascii_def)
  have h: "(1::nat) < length ''hELLO wORLD''" by simp
  from a capitalize_upper_first_lower_rest [of "''hELLO wORLD''" rt "[]"]
  obtain r where r: "capitalize_filter rt (VStr ''hELLO wORLD'') [] = Inr (VStr r)"
    and i: "\<forall>i. i < length ''hELLO wORLD'' \<longrightarrow>
            r ! i = (if i = 0 then upper_char (''hELLO wORLD'' ! i)
                     else lower_char (''hELLO wORLD'' ! i))"
    by blast
  have e: "capitalize_filter rt (VStr ''hELLO wORLD'') [] = Inr (VStr ''Hello world'')"
    by (simp add: string_defs capitalize_filter_def)
  with r have "r = ''Hello world''" by simp
  with i h have "''Hello world'' ! 1 = lower_char (''hELLO wORLD'' ! 1)"
    by (metis One_nat_def n_not_Suc_n)
  with a a1 e h show "ascii ''hELLO wORLD'' \<and> ascii (take 1 ''hELLO wORLD'')
   \<and> capitalize_filter rt (VStr ''hELLO wORLD'') [] = Inr (VStr ''Hello world'')
   \<and> (1::nat) < length ''hELLO wORLD''
   \<and> ''Hello world'' ! 1 = lower_char (''hELLO wORLD'' ! 1)"
    by blast
qed

text \<open>C8. A filter name that the registry lacks leaves the value unchanged: \<^verbatim>\<open>apply\<close>
  returns the value, raises no error, and its only effect is one warning on the console.
  So \<^verbatim>\<open>render("{{a|nosuchfilter}}", {a: "z"})\<close> is \<^verbatim>\<open>"z"\<close>.\<close>

theorem filter_apply_unknown_is_noop:
  "(filters name = None \<longrightarrow>
      filter_apply filters name v args con = (Inr v, con @ [''Unknown filter: '' @ name]))
   \<and> render rt (registerBuiltinFilters rt) ''{{a|nosuchfilter}}'' [(''a'', VStr ''z'')] con'
       = (Inr ''z'', con' @ [''Unknown filter: nosuchfilter''])"
  by (simp add: string_defs engine_defs registry_defs resolve_defs)

theorem filter_apply_unknown_is_noop_witness:
  "\<forall>rt. registerBuiltinFilters rt ''nosuchfilter'' = None
     \<and> filter_apply (registerBuiltinFilters rt) ''nosuchfilter'' (VNum 7) [''x''] [''earlier'']
         = (Inr (VNum 7), [''earlier'', ''Unknown filter: nosuchfilter''])"
proof
  fix rt
  have n: "registerBuiltinFilters rt ''nosuchfilter'' = None"
    by (simp add: registry_defs)
  show "registerBuiltinFilters rt ''nosuchfilter'' = None
     \<and> filter_apply (registerBuiltinFilters rt) ''nosuchfilter'' (VNum 7) [''x''] [''earlier'']
         = (Inr (VNum 7), [''earlier'', ''Unknown filter: nosuchfilter''])"
    using n filter_apply_unknown_is_noop
      [of "registerBuiltinFilters rt" "''nosuchfilter''" "VNum 7" "[''x'']" "[''earlier'']"]
    by simp
qed

text \<open>C9. \<^verbatim>\<open>render\<close> is the identity on a template without a placeholder, for every
  context and every registry, and writes nothing to the console.\<close>

theorem render_identity_without_placeholder:
  "\<not> contains_placeholder t \<Longrightarrow> render rt filters t variables con = (Inr t, con)"
  by (simp add: render_def render_from_no_placeholder)

theorem render_identity_without_placeholder_witness:
  "\<forall>rt. \<not> contains_placeholder ''# Notes {{}} {a}} {{b}c}} end''
     \<and> render rt (registerBuiltinFilters rt) ''# Notes {{}} {a}} {{b}c}} end'' [(''a'', VStr ''x'')] []
         = (Inr ''# Notes {{}} {a}} {{b}c}} end'', [])"
proof
  fix rt
  have "\<not> has_match ''# Notes {{}} {a}} {{b}c}} end''"
    by (simp add: match_placeholder_def startsWith_def)
  then have h: "\<not> contains_placeholder ''# Notes {{}} {a}} {{b}c}} end''"
    by (simp add: has_match_iff)
  show "\<not> contains_placeholder ''# Notes {{}} {a}} {{b}c}} end''
     \<and> render rt (registerBuiltinFilters rt) ''# Notes {{}} {a}} {{b}c}} end'' [(''a'', VStr ''x'')] []
         = (Inr ''# Notes {{}} {a}} {{b}c}} end'', [])"
    using h render_identity_without_placeholder [OF h] by blast
qed

text \<open>C10. When a prompt literal carries a filter chain, the filters are applied to the
  placeholder text that \<^verbatim>\<open>resolve\<close> returns, in chain order, and the result is what is
  substituted: for every expression that parses to a quoted name and the filters
  \<open>f1, ..., fn\<close>, the output is the stringified value of
  \<^verbatim>\<open>apply(fn, ... apply(f1, "{{name}}") ...)\<close>, for every context. So
  \<^verbatim>\<open>render('{{"x"|upper}}', ctx)\<close> is \<^verbatim>\<open>{{"X"}}\<close>, which is not the original
  placeholder.\<close>

theorem render_prompt_literal_with_filter:
  \<open>(parseExpression rt expression = name # fs \<and> quoted name \<longrightarrow>
      processExpression rt filters expression variables con =
        stringified rt
          (nested_apply filters (rev (map (parseFilter rt) fs)) (VStr (''{{'' @ name @ ''}}'')) con))
   \<and> (body \<noteq> [] \<and> CHR ''}'' \<notin> set body
        \<and> parseExpression rt (trim rt body) = name # fs \<and> quoted name \<longrightarrow>
      render rt filters (''{{'' @ body @ ''}}'') variables con =
        stringified rt
          (nested_apply filters (rev (map (parseFilter rt) fs)) (VStr (''{{'' @ name @ ''}}'')) con))
   \<and> render rt' (registerBuiltinFilters rt') ''{{"x"|upper}}'' variables' con'
       = (Inr ''{{"X"}}'', con')
   \<and> ''{{"X"}}'' \<noteq> ''{{"x"|upper}}''\<close>
proof (intro conjI impI)
  assume a: "parseExpression rt expression = name # fs \<and> quoted name"
  then show "processExpression rt filters expression variables con =
        stringified rt
          (nested_apply filters (rev (map (parseFilter rt) fs)) (VStr (''{{'' @ name @ ''}}'')) con)"
    by (simp add: processExpression_nested resolve_quoted)
next
  assume a: "body \<noteq> [] \<and> CHR ''}'' \<notin> set body
      \<and> parseExpression rt (trim rt body) = name # fs \<and> quoted name"
  then have "render rt filters (''{{'' @ body @ ''}}'') variables con =
      processExpression rt filters (trim rt body) variables con"
    using render_single by blast
  with a show "render rt filters (''{{'' @ body @ ''}}'') variables con =
        stringified rt
          (nested_apply filters (rev (map (parseFilter rt) fs)) (VStr (''{{'' @ name @ ''}}'')) con)"
    by (simp add: processExpression_nested resolve_quoted)
next
  show \<open>render rt' (registerBuiltinFilters rt') ''{{"x"|upper}}'' variables' con'
       = (Inr ''{{"X"}}'', con')\<close>
    by (simp add: string_defs engine_defs registry_defs resolve_defs upper_filter_def)
next
  show \<open>''{{"X"}}'' \<noteq> ''{{"x"|upper}}''\<close>
    by simp
qed

theorem render_prompt_literal_with_filter_witness:
  \<open>\<forall>rt. (''"a,b" | replace:",",";" |upper'' \<noteq> []
          \<and> CHR ''}'' \<notin> set ''"a,b" | replace:",",";" |upper''
          \<and> parseExpression rt (trim rt ''"a,b" | replace:",",";" |upper'')
              = ''"a,b"'' # [''replace:",",";"'', ''upper'']
          \<and> quoted ''"a,b"'')
     \<and> map (parseFilter rt) [''replace:",",";"'', ''upper'']
          = [(''replace'', ['','', '';'']), (''upper'', [])]
     \<and> render rt (registerBuiltinFilters rt) (''{{'' @ ''"a,b" | replace:",",";" |upper'' @ ''}}'')
          [(''title'', VStr ''T'')] []
        = stringified rt (nested_apply (registerBuiltinFilters rt)
            (rev (map (parseFilter rt) [''replace:",",";"'', ''upper'']))
            (VStr (''{{'' @ ''"a,b"'' @ ''}}'')) [])
     \<and> stringified rt (nested_apply (registerBuiltinFilters rt)
            (rev (map (parseFilter rt) [''replace:",",";"'', ''upper'']))
            (VStr (''{{'' @ ''"a,b"'' @ ''}}'')) [])
        = (Inr ''{{"A;B"}}'', [])\<close>
proof
  fix rt
  have h: \<open>''"a,b" | replace:",",";" |upper'' \<noteq> []
          \<and> CHR ''}'' \<notin> set ''"a,b" | replace:",",";" |upper''
          \<and> parseExpression rt (trim rt ''"a,b" | replace:",",";" |upper'')
              = ''"a,b"'' # [''replace:",",";"'', ''upper'']
          \<and> quoted ''"a,b"''\<close>
    by (simp add: string_defs engine_defs quoted_def)
  have p: \<open>map (parseFilter rt) [''replace:",",";"'', ''upper'']
          = [(''replace'', ['','', '';'']), (''upper'', [])]\<close>
    by (simp add: string_defs engine_defs)
  have n: \<open>stringified rt (nested_apply (registerBuiltinFilters rt)
            (rev (map (parseFilter rt) [''replace:",",";"'', ''upper'']))
            (VStr (''{{'' @ ''"a,b"'' @ ''}}'')) [])
        = (Inr ''{{"A;B"}}'', [])\<close>
    unfolding p
    by (simp add: string_defs engine_defs registry_defs upper_filter_def stringified_def
        replace_filter_def arg_default_def arg_def literal_pattern_def regexp_operators_def
        replace_literal_def nullish_def)
  show \<open>(''"a,b" | replace:",",";" |upper'' \<noteq> []
          \<and> CHR ''}'' \<notin> set ''"a,b" | replace:",",";" |upper''
          \<and> parseExpression rt (trim rt ''"a,b" | replace:",",";" |upper'')
              = ''"a,b"'' # [''replace:",",";"'', ''upper'']
          \<and> quoted ''"a,b"'')
     \<and> map (parseFilter rt) [''replace:",",";"'', ''upper'']
          = [(''replace'', ['','', '';'']), (''upper'', [])]
     \<and> render rt (registerBuiltinFilters rt) (''{{'' @ ''"a,b" | replace:",",";" |upper'' @ ''}}'')
          [(''title'', VStr ''T'')] []
        = stringified rt (nested_apply (registerBuiltinFilters rt)
            (rev (map (parseFilter rt) [''replace:",",";"'', ''upper'']))
            (VStr (''{{'' @ ''"a,b"'' @ ''}}'')) [])
     \<and> stringified rt (nested_apply (registerBuiltinFilters rt)
            (rev (map (parseFilter rt) [''replace:",",";"'', ''upper'']))
            (VStr (''{{'' @ ''"a,b"'' @ ''}}'')) [])
        = (Inr ''{{"A;B"}}'', [])\<close>
    using h p n
      render_prompt_literal_with_filter
        [of rt \<open>trim rt ''"a,b" | replace:",",";" |upper''\<close> \<open>''"a,b"''\<close>
          \<open>[''replace:",",";"'', ''upper'']\<close> "registerBuiltinFilters rt"
          "[(''title'', VStr ''T'')]" "[]" \<open>''"a,b" | replace:",",";" |upper''\<close>]
    by blast
qed

end
